theory Spec2Isabelle
  imports Main "HOL-Library.Multiset"
begin

section \<open>cmd/bbs/main.go: the start-up sequence of the bbs process\<close>

text \<open>
  \<^verbatim>\<open>main\<close> parses its flags, builds every collaborator in a fixed order and aborts with
  \<^verbatim>\<open>logger.Fatal\<close> at the first failing step. The model is a function from the parsed
  flags and the outcomes of the external calls to either the fatal message or the
  wiring: the arguments with which the collaborators were constructed.
\<close>

subsection \<open>Flags\<close>

type_synonym duration = nat \<comment> \<open>\<^verbatim>\<open>time.Duration\<close>, in nanoseconds\<close>

definition Second :: duration where
  "Second = 1000000000"

definition Minute :: duration where
  "Minute = 60 * Second"

record bbs_flags =
  listenAddress :: string
  requireSSL :: bool
  caFile :: string
  certFile :: string
  keyFile :: string
  advertiseURL :: string
  communicationTimeout :: duration
  auctioneerAddress :: string
  sessionName :: string
  consulCluster :: string
  lockTTL :: duration
  lockRetryInterval :: duration
  reportInterval :: duration
  dropsondePort :: int
  convergenceWorkers :: int
  updateWorkers :: int
  taskCallBackWorkers :: int
  desiredLRPCreationTimeout :: duration
  databaseConnectionString :: string
  maxDatabaseConnections :: int
  databaseDriver :: string

text \<open>
  The default of every flag, as the \<^verbatim>\<open>flag.String\<close>, \<^verbatim>\<open>flag.Bool\<close>, \<^verbatim>\<open>flag.Int\<close> and
  \<^verbatim>\<open>flag.Duration\<close> declarations give it. \<^verbatim>\<open>locket.LockTTL\<close> and \<^verbatim>\<open>locket.RetryInterval\<close>
  are constants of another package and are taken as parameters.
\<close>

definition default_flags :: "duration \<Rightarrow> duration \<Rightarrow> bbs_flags" where
  "default_flags locket_LockTTL locket_RetryInterval =
     \<lparr> listenAddress = [],
       requireSSL = False,
       caFile = [],
       certFile = [],
       keyFile = [],
       advertiseURL = [],
       communicationTimeout = 10 * Second,
       auctioneerAddress = [],
       sessionName = ''bbs'',
       consulCluster = [],
       lockTTL = locket_LockTTL,
       lockRetryInterval = locket_RetryInterval,
       reportInterval = Minute,
       dropsondePort = 3457,
       convergenceWorkers = 20,
       updateWorkers = 1000,
       taskCallBackWorkers = 1000,
       desiredLRPCreationTimeout = 1 * Minute,
       databaseConnectionString = [],
       maxDatabaseConnections = 200,
       databaseDriver = ''mysql'' \<rparr>"

subsection \<open>External calls\<close>

text \<open>The fields of \<^verbatim>\<open>etcddb.ETCDOptions\<close> that \<^verbatim>\<open>initializeEtcdStoreClient\<close> reads.\<close>

record ETCDOptions =
  IsSSL :: bool
  CertFile :: string
  KeyFile :: string
  CAFile :: string
  ClusterUrls :: "string list"
  ClientSessionCacheSize :: int
  MaxIdleConnsPerHost :: int

text \<open>
  What the calls into other packages return. A field named \<open>_err\<close> is \<open>True\<close> when the
  call returns a non-nil error; a call with a result returns \<open>None\<close> for an error.
\<close>

record externals =
  NewClientFromUrl_err :: "string \<Rightarrow> bool"
  NewV4_err :: bool
  NewBBSLockRunner_err :: bool
  SplitHostPort :: "string \<Rightarrow> (string \<times> string) option"
  LookupPort :: "string \<Rightarrow> string \<Rightarrow> int option"
  etcdFlags_Validate :: "ETCDOptions option"
  NewTLSClient_err :: bool
  LoadX509KeyPair_err :: bool
  encryptionFlags_Parse_err :: bool
  NewKeyManager_err :: bool
  sql_Open_err :: "string \<Rightarrow> string \<Rightarrow> bool"
  Ping_err :: bool
  CreateInitialSchema_err :: bool
  NewTLSConfig_err :: "string \<Rightarrow> string \<Rightarrow> string \<Rightarrow> bool"
  DebugAddress :: string
  monitor_Wait_err :: bool

text \<open>The message of each \<^verbatim>\<open>logger.Fatal\<close> call, which logs and panics.\<close>

datatype fatal =
    New_consul_client_failed
  | Couldnt_generate_uuid
  | Advertise_URL_must_be_specified
  | Couldnt_create_lock_maintainer
  | Failed_invalid_listen_address
  | Failed_invalid_listen_port
  | Etcd_validation_failed
  | Failed_to_construct_etcd_tls_client
  | Cannot_setup_encryption
  | Failed_to_open_sql
  | Sql_failed_to_connect
  | Sql_failed_create_initial_schema
  | Auctioneer_address_validation_failed
  | Tls_configuration_failed

subsection \<open>The collaborators main builds\<close>

text \<open>
  The two stores of type \<^verbatim>\<open>db.DB\<close> that exist in \<^verbatim>\<open>main\<close>: the value of the variable
  \<^verbatim>\<open>etcdDB\<close> (key-value engine) and the value of \<^verbatim>\<open>sqlDB\<close> (relational engine).
\<close>

datatype db = EtcdDB | SqlDB

datatype chan = MigrationsDone | Signals | Ready

record wiring =
  activeDB :: db \<comment> \<open>the variable \<^verbatim>\<open>activeDB\<close> after the selection block\<close>
  sqlDB_set :: bool \<comment> \<open>\<^verbatim>\<open>sqlDB != nil\<close>\<close>
  maxOpenConns :: "int option" \<comment> \<open>argument of \<^verbatim>\<open>sqlConn.SetMaxOpenConns\<close>, if called\<close>
  encryptor_db :: db \<comment> \<open>second argument of \<^verbatim>\<open>encryptor.New\<close>\<close>
  manager_db :: db \<comment> \<open>second argument of \<^verbatim>\<open>migration.NewManager\<close>\<close>
  manager_done :: chan \<comment> \<open>the done channel handed to the migration manager\<close>
  handler_db :: db \<comment> \<open>the store handed to \<^verbatim>\<open>handlers.New\<close>\<close>
  handler_done :: chan \<comment> \<open>the done channel handed to \<^verbatim>\<open>handlers.New\<close>\<close>
  server_tls :: bool
  members :: "string list" \<comment> \<open>names of the \<^verbatim>\<open>grouper.Members\<close>, in order\<close>

definition initializeLockMaintainer :: "bbs_flags \<Rightarrow> externals \<Rightarrow> fatal + unit" where
  "initializeLockMaintainer f x =
     (if NewV4_err x then Inl Couldnt_generate_uuid
      else if advertiseURL f = [] then Inl Advertise_URL_must_be_specified
      else if NewBBSLockRunner_err x then Inl Couldnt_create_lock_maintainer
      else Inr ())"

definition initializeAuctioneerClient :: "bbs_flags \<Rightarrow> fatal + unit" where
  "initializeAuctioneerClient f =
     (if auctioneerAddress f = [] then Inl Auctioneer_address_validation_failed
      else Inr ())"

definition initializeEtcdStoreClient :: "externals \<Rightarrow> ETCDOptions \<Rightarrow> fatal + unit" where
  "initializeEtcdStoreClient x etcdOptions =
     (if IsSSL etcdOptions then
        (if CertFile etcdOptions = [] \<or> KeyFile etcdOptions = []
           then Inl Failed_to_construct_etcd_tls_client
         else if NewTLSClient_err x then Inl Failed_to_construct_etcd_tls_client
         else if LoadX509KeyPair_err x then Inl Failed_to_construct_etcd_tls_client
         else Inr ())
      else Inr ())"

text \<open>
  The block of \<^verbatim>\<open>main\<close> that starts at \<^verbatim>\<open>var activeDB db.DB\<close>: \<^verbatim>\<open>activeDB = etcdDB\<close>, then,
  if both SQL flags are non-empty, the connection is opened, pinged, the schema is
  created and \<^verbatim>\<open>activeDB = sqlDB\<close>. The result is the pair of \<^verbatim>\<open>activeDB\<close> and the argument
  given to \<^verbatim>\<open>SetMaxOpenConns\<close> (\<open>None\<close> when the block is skipped and \<^verbatim>\<open>sqlDB\<close> stays nil).
\<close>

definition select_activeDB :: "bbs_flags \<Rightarrow> externals \<Rightarrow> fatal + (db \<times> int option)" where
  "select_activeDB f x =
     (if databaseDriver f \<noteq> [] \<and> databaseConnectionString f \<noteq> [] then
        (if sql_Open_err x (databaseDriver f) (databaseConnectionString f)
           then Inl Failed_to_open_sql
         else if Ping_err x then Inl Sql_failed_to_connect
         else if CreateInitialSchema_err x then Inl Sql_failed_create_initial_schema
         else Inr (SqlDB, Some (maxDatabaseConnections f)))
      else Inr (EtcdDB, None))"

definition base_members :: "string list" where
  "base_members =
     [''lock-maintainer'', ''workpool'', ''server'', ''migration-manager'', ''encryptor'',
      ''hub-maintainer'', ''metrics'', ''registration-runner'']"

text \<open>
  Everything of \<^verbatim>\<open>main\<close> after the selection block: the encryptor is built on
  \<^verbatim>\<open>activeDB\<close>, the migration manager on \<^verbatim>\<open>etcdDB\<close>, the handler on \<^verbatim>\<open>activeDB\<close>; the
  manager and the handler share the channel \<^verbatim>\<open>migrationsDone\<close>.
\<close>

definition build_members :: "bbs_flags \<Rightarrow> externals \<Rightarrow> db \<times> int option \<Rightarrow> fatal + wiring" where
  "build_members f x sel =
     (case initializeAuctioneerClient f of
        Inl e \<Rightarrow> Inl e
      | Inr _ \<Rightarrow>
          if requireSSL f \<and> NewTLSConfig_err x (certFile f) (keyFile f) (caFile f)
            then Inl Tls_configuration_failed
          else Inr \<lparr> activeDB = fst sel,
                     sqlDB_set = (snd sel \<noteq> None),
                     maxOpenConns = snd sel,
                     encryptor_db = fst sel,
                     manager_db = EtcdDB,
                     manager_done = MigrationsDone,
                     handler_db = fst sel,
                     handler_done = MigrationsDone,
                     server_tls = requireSSL f,
                     members = (if DebugAddress x \<noteq> [] then ''debug-server'' # base_members
                                else base_members) \<rparr>)"

definition main_startup :: "bbs_flags \<Rightarrow> externals \<Rightarrow> fatal + wiring" where
  "main_startup f x =
     (if NewClientFromUrl_err x (consulCluster f) then Inl New_consul_client_failed
      else case initializeLockMaintainer f x of
        Inl e \<Rightarrow> Inl e
      | Inr _ \<Rightarrow>
      (case SplitHostPort x (listenAddress f) of
        None \<Rightarrow> Inl Failed_invalid_listen_address
      | Some (host, portString) \<Rightarrow>
      (case LookupPort x ''tcp'' portString of
        None \<Rightarrow> Inl Failed_invalid_listen_port
      | Some portNum \<Rightarrow>
      (case etcdFlags_Validate x of
        None \<Rightarrow> Inl Etcd_validation_failed
      | Some etcdOptions \<Rightarrow>
      (case initializeEtcdStoreClient x etcdOptions of
        Inl e \<Rightarrow> Inl e
      | Inr _ \<Rightarrow>
      if encryptionFlags_Parse_err x then Inl Cannot_setup_encryption
      else if NewKeyManager_err x then Inl Cannot_setup_encryption
      else (case select_activeDB f x of
        Inl e \<Rightarrow> Inl e
      | Inr sel \<Rightarrow> build_members f x sel))))))"

text \<open>
  After \<^verbatim>\<open>logger.Info("started")\<close> the process only waits on \<^verbatim>\<open>monitor.Wait()\<close>: an error
  exits with status 1, \<^verbatim>\<open>nil\<close> lets \<^verbatim>\<open>main\<close> return (status 0). A start-up that hit
  \<^verbatim>\<open>logger.Fatal\<close> never serves.
\<close>

datatype proc = Serving wiring | Exited int | Panicked fatal

definition started :: "bbs_flags \<Rightarrow> externals \<Rightarrow> proc" where
  "started f x = (case main_startup f x of Inl e \<Rightarrow> Panicked e | Inr w \<Rightarrow> Serving w)"

inductive proc_step :: "externals \<Rightarrow> proc \<Rightarrow> proc \<Rightarrow> bool" for x :: externals where
  wait_failure: "monitor_Wait_err x \<Longrightarrow> proc_step x (Serving w) (Exited 1)"
| wait_exited: "\<not> monitor_Wait_err x \<Longrightarrow> proc_step x (Serving w) (Exited 0)"

text \<open>The store that serves requests in a process state, if it serves at all.\<close>

fun serving_db :: "proc \<Rightarrow> db option" where
  "serving_db (Serving w) = Some (handler_db w)"
| "serving_db (Exited _) = None"
| "serving_db (Panicked _) = None"

subsection \<open>Fixtures\<close>

definition ok_externals :: externals where
  "ok_externals =
     \<lparr> NewClientFromUrl_err = (\<lambda>_. False),
       NewV4_err = False,
       NewBBSLockRunner_err = False,
       SplitHostPort = (\<lambda>_. Some (''0.0.0.0'', ''8889'')),
       LookupPort = (\<lambda>_ _. Some 8889),
       etcdFlags_Validate =
         Some \<lparr> IsSSL = False, CertFile = [], KeyFile = [], CAFile = [],
                ClusterUrls = [''http://127.0.0.1:4001''],
                ClientSessionCacheSize = 0, MaxIdleConnsPerHost = 0 \<rparr>,
       NewTLSClient_err = False,
       LoadX509KeyPair_err = False,
       encryptionFlags_Parse_err = False,
       NewKeyManager_err = False,
       sql_Open_err = (\<lambda>_ _. False),
       Ping_err = False,
       CreateInitialSchema_err = False,
       NewTLSConfig_err = (\<lambda>_ _ _. False),
       DebugAddress = [],
       monitor_Wait_err = False \<rparr>"

text \<open>The flags an operator must give: the defaults leave them empty and start-up aborts.\<close>

definition etcd_flags :: bbs_flags where
  "etcd_flags =
     (default_flags (15 * Second) (5 * Second))
       \<lparr> listenAddress := ''0.0.0.0:8889'',
         advertiseURL := ''http://bbs.example:8889'',
         auctioneerAddress := ''http://auctioneer.example:9016'' \<rparr>"

definition sql_flags :: bbs_flags where
  "sql_flags = etcd_flags \<lparr> databaseConnectionString := ''diego:pw@/diego'' \<rparr>"

section \<open>models.VolumeMount\<close>

text \<open>
  The value the tests of \<^verbatim>\<open>models/volume_mount_test.go\<close> build: a mount with its driver,
  container directory and mode, a device that is a \<^verbatim>\<open>oneof\<close> whose only form is the shared
  device (held through a pointer, so it may be nil), and the two deprecated fields.
\<close>

type_synonym bytes = "char list"

record SharedDevice =
  VolumeId :: string
  MountConfig :: string

datatype device = VolumeMount_Shared "SharedDevice option"

record VolumeMount =
  Driver :: string
  ContainerDir :: string
  Mode :: string
  Device :: "device option"
  DeprecatedConfig :: bytes
  DeprecatedVolumeId :: string

text \<open>\<^verbatim>\<open>mount.GetShared()\<close>: the shared device, or nil when the device is not a shared one.\<close>

fun GetShared :: "VolumeMount \<Rightarrow> SharedDevice option" where
  "GetShared m = (case Device m of Some (VolumeMount_Shared s) \<Rightarrow> s | None \<Rightarrow> None)"

datatype volume_mount_error =
    Invalid_driver
  | Invalid_container_dir
  | Invalid_mode
  | Invalid_volume_id
  | Invalid_deprecated_config
  | Invalid_deprecated_volume_id

text \<open>
  Modelled from the spec: \<^verbatim>\<open>VolumeMount.Validate\<close>, whose file is not among the sources
  (only its test is). The spec's invariant: driver, container path and mode must be
  non-empty; a shared device descriptor must carry a non-empty volume identifier; legacy
  deprecated fields, if present, must independently validate or the whole mount is
  rejected. The spec does not say what the sub-validation of a deprecated field checks,
  so the two checks are parameters. The result lists the violations; the empty list
  is Go's \<^verbatim>\<open>nil\<close> error.
\<close>

definition Validate ::
  "(bytes \<Rightarrow> bool) \<Rightarrow> (string \<Rightarrow> bool) \<Rightarrow> VolumeMount \<Rightarrow> volume_mount_error list" where
  "Validate config_ok volume_id_ok m =
     (if Driver m = [] then [Invalid_driver] else []) @
     (if ContainerDir m = [] then [Invalid_container_dir] else []) @
     (if Mode m = [] then [Invalid_mode] else []) @
     (case GetShared m of
        Some s \<Rightarrow> if VolumeId s = [] then [Invalid_volume_id] else []
      | None \<Rightarrow> []) @
     (if DeprecatedConfig m \<noteq> [] \<and> \<not> config_ok (DeprecatedConfig m)
        then [Invalid_deprecated_config] else []) @
     (if DeprecatedVolumeId m \<noteq> [] \<and> \<not> volume_id_ok (DeprecatedVolumeId m)
        then [Invalid_deprecated_volume_id] else [])"

text \<open>The mount of the test's \<^verbatim>\<open>BeforeEach\<close>.\<close>

definition good_mount :: VolumeMount where
  "good_mount =
     \<lparr> Driver = ''my-driver'',
       ContainerDir = ''/mnt/mypath'',
       Mode = ''r'',
       Device = Some (VolumeMount_Shared
         (Some \<lparr> VolumeId = ''my-volume'', MountConfig = ''{\"foo\":\"bar\"}'' \<rparr>)),
       DeprecatedConfig = [],
       DeprecatedVolumeId = [] \<rparr>"

text \<open>\<^verbatim>\<open>mount.GetShared().VolumeId = v\<close>: an assignment through the pointer.\<close>

fun set_shared_VolumeId :: "string \<Rightarrow> VolumeMount \<Rightarrow> VolumeMount" where
  "set_shared_VolumeId v m =
     (case Device m of
        Some (VolumeMount_Shared (Some s)) \<Rightarrow>
          m \<lparr> Device := Some (VolumeMount_Shared (Some (s \<lparr> VolumeId := v \<rparr>))) \<rparr>
      | _ \<Rightarrow> m)"

section \<open>The migration manager\<close>

text \<open>
  \<^verbatim>\<open>main\<close> only constructs the manager (\<^verbatim>\<open>migration.NewManager\<close>); the package itself is
  not among the sources. A store carries its recorded schema version next to its
  data; a migration has the version it migrates to and a transformation that may fail.
\<close>

record 'd store =
  SchemaVersion :: nat
  contents :: 'd

record 'd migration =
  Version :: nat
  Up :: "'d \<Rightarrow> 'd option"

datatype manager_state = Pending | Running | Complete | Fatal

text \<open>
  Modelled from the spec: the pipeline of \<^verbatim>\<open>migration.Manager\<close>. The migrations are
  applied strictly in the order given; each one either succeeds, bumping the recorded
  version together with its data change, or fails, which is fatal for the whole
  pipeline: no later migration runs. The third component logs the versions applied.
\<close>

fun apply_migrations ::
  "'d migration list \<Rightarrow> 'd store \<Rightarrow> nat list \<Rightarrow> manager_state \<times> 'd store \<times> nat list" where
  "apply_migrations [] s applied = (Complete, s, applied)"
| "apply_migrations (m # ms) s applied =
     (case Up m (contents s) of
        None \<Rightarrow> (Fatal, s, applied)
      | Some d \<Rightarrow>
          apply_migrations ms \<lparr> SchemaVersion = Version m, contents = d \<rparr>
            (applied @ [Version m]))"

text \<open>
  Modelled from the spec: on start the manager reads the backend's recorded
  SchemaVersion, selects every registered migration whose target version is greater,
  sorts them ascending by version, and applies them strictly in order.
\<close>

definition selected_migrations :: "'d migration list \<Rightarrow> 'd store \<Rightarrow> 'd migration list" where
  "selected_migrations registered s =
     sort_key Version (filter (\<lambda>m. SchemaVersion s < Version m) registered)"

definition run_manager ::
  "'d migration list \<Rightarrow> 'd store \<Rightarrow> manager_state \<times> 'd store \<times> nat list" where
  "run_manager registered s = apply_migrations (selected_migrations registered s) s []"

text \<open>Three migrations on a store of lines, registered out of order.\<close>

definition note_migration :: "nat \<Rightarrow> string \<Rightarrow> string list migration" where
  "note_migration v line = \<lparr> Version = v, Up = (\<lambda>ls. Some (ls @ [line])) \<rparr>"

definition registry_2_3_5 :: "string list migration list" where
  "registry_2_3_5 =
     [note_migration 5 ''reencrypt'', note_migration 2 ''split-lrps'',
      note_migration 3 ''base64'']"

definition store_v1 :: "string list store" where
  "store_v1 = \<lparr> SchemaVersion = 1, contents = [] \<rparr>"

section \<open>Properties of the start-up sequence\<close>

lemma main_startup_Inr:
  assumes "main_startup f x = Inr w"
  shows "\<exists>sel. select_activeDB f x = Inr sel \<and> build_members f x sel = Inr w"
  using assms
  by (auto simp: main_startup_def split: if_splits sum.splits option.splits prod.splits)

lemma select_activeDB_Inr:
  assumes "select_activeDB f x = Inr sel"
  shows "sel = (if databaseDriver f \<noteq> [] \<and> databaseConnectionString f \<noteq> []
                then (SqlDB, Some (maxDatabaseConnections f)) else (EtcdDB, None))"
  using assms by (auto simp: select_activeDB_def split: if_splits)

lemma build_members_Inr:
  assumes "build_members f x sel = Inr w"
  shows "activeDB w = fst sel \<and> encryptor_db w = fst sel \<and> handler_db w = fst sel \<and>
         manager_db w = EtcdDB \<and> manager_done w = MigrationsDone \<and>
         handler_done w = MigrationsDone \<and> sqlDB_set w = (snd sel \<noteq> None) \<and>
         maxOpenConns w = snd sel"
  using assms
  by (auto simp: build_members_def split: if_splits sum.splits)

lemma startup_fields:
  assumes "main_startup f x = Inr w"
  shows "activeDB w =
           (if databaseDriver f \<noteq> [] \<and> databaseConnectionString f \<noteq> [] then SqlDB else EtcdDB)"
    and "encryptor_db w = activeDB w"
    and "handler_db w = activeDB w"
    and "manager_db w = EtcdDB"
    and "manager_done w = MigrationsDone"
    and "handler_done w = MigrationsDone"
    and "sqlDB_set w = (activeDB w = SqlDB)"
proof -
  from main_startup_Inr [OF assms] obtain sel where
    sel: "select_activeDB f x = Inr sel" and b: "build_members f x sel = Inr w" by blast
  note s = select_activeDB_Inr [OF sel]
  note m = build_members_Inr [OF b]
  show "activeDB w =
          (if databaseDriver f \<noteq> [] \<and> databaseConnectionString f \<noteq> [] then SqlDB else EtcdDB)"
    using s m by (simp split: if_splits)
  show "encryptor_db w = activeDB w" "handler_db w = activeDB w" "manager_db w = EtcdDB"
    "manager_done w = MigrationsDone" "handler_done w = MigrationsDone"
    using m by simp_all
  show "sqlDB_set w = (activeDB w = SqlDB)"
    using s m by (simp split: if_splits)
qed

text \<open>A serving process can only exit: no step leads from one wiring to another.\<close>

lemma proc_step_from_Serving:
  assumes "(proc_step x)\<^sup>*\<^sup>* p q"
  shows "q = p \<or> (\<exists>w c. p = Serving w \<and> q = Exited c)"
  using assms
proof (induction rule: rtranclp_induct)
  case base
  then show ?case by simp
next
  case (step y z)
  from step.hyps(2) show ?case
    using step.IH by (auto elim: proc_step.cases)
qed

text \<open>The two fixtures run: with the SQL connection string, and without it.\<close>

lemma startup_sql:
  "main_startup sql_flags ok_externals = Inr
     \<lparr> activeDB = SqlDB, sqlDB_set = True, maxOpenConns = Some 200, encryptor_db = SqlDB,
       manager_db = EtcdDB, manager_done = MigrationsDone, handler_db = SqlDB,
       handler_done = MigrationsDone, server_tls = False, members = base_members \<rparr>"
  by (simp add: main_startup_def sql_flags_def etcd_flags_def default_flags_def ok_externals_def
      initializeLockMaintainer_def initializeEtcdStoreClient_def select_activeDB_def
      build_members_def initializeAuctioneerClient_def)

lemma startup_etcd:
  "main_startup etcd_flags ok_externals = Inr
     \<lparr> activeDB = EtcdDB, sqlDB_set = False, maxOpenConns = None, encryptor_db = EtcdDB,
       manager_db = EtcdDB, manager_done = MigrationsDone, handler_db = EtcdDB,
       handler_done = MigrationsDone, server_tls = False, members = base_members \<rparr>"
  by (simp add: main_startup_def etcd_flags_def default_flags_def ok_externals_def
      initializeLockMaintainer_def initializeEtcdStoreClient_def select_activeDB_def
      build_members_def initializeAuctioneerClient_def)

lemma fixture_flags:
  "databaseDriver etcd_flags = ''mysql''"
  "databaseConnectionString etcd_flags = []"
  "databaseDriver sql_flags = ''mysql''"
  "databaseConnectionString sql_flags = ''diego:pw@/diego''"
  by (simp_all add: etcd_flags_def sql_flags_def default_flags_def)

subsection \<open>C3: the store of the migration manager\<close>

text \<open>
  Claim C3 says that the migration manager runs against whichever store is active. It
  does not when the relational engine is selected: with the default driver, a
  connection string and every external call succeeding, \<^verbatim>\<open>activeDB\<close> is \<^verbatim>\<open>sqlDB\<close>, the
  encryptor and the handler are built on it, and \<^verbatim>\<open>migration.NewManager\<close> is still given
  \<^verbatim>\<open>etcdDB\<close>.
\<close>

theorem migration_manager_store_counterexample:
  "main_startup sql_flags ok_externals = Inr
     \<lparr> activeDB = SqlDB, sqlDB_set = True, maxOpenConns = Some 200, encryptor_db = SqlDB,
       manager_db = EtcdDB, manager_done = MigrationsDone, handler_db = SqlDB,
       handler_done = MigrationsDone, server_tls = False, members = base_members \<rparr>"
  by (rule startup_sql)

text \<open>
  Claim C3, amended: in every start-up that completes, the migration manager is
  constructed on the key-value store \<^verbatim>\<open>etcdDB\<close>, whichever engine is active; its store
  is the active one exactly when the key-value engine is active, that is when
  \<^verbatim>\<open>databaseDriver\<close> or \<^verbatim>\<open>databaseConnectionString\<close> is empty. The manager and the request
  handler are given the same \<^verbatim>\<open>migrationsDone\<close> channel, on which traffic is gated.
\<close>

theorem migration_manager_store:
  assumes "main_startup f x = Inr w"
  shows "manager_db w = EtcdDB \<and>
         (manager_db w = activeDB w \<longleftrightarrow>
            databaseDriver f = [] \<or> databaseConnectionString f = []) \<and>
         manager_done w = handler_done w"
  using startup_fields [OF assms] by (auto split: if_splits)

text \<open>
  C3, on the two fixtures: without a connection string the manager's store is the
  active one, with a connection string it is not.
\<close>

theorem migration_manager_store_witness:
  "manager_db (projr (main_startup etcd_flags ok_externals)) =
     activeDB (projr (main_startup etcd_flags ok_externals)) \<and>
   manager_db (projr (main_startup sql_flags ok_externals)) \<noteq>
     activeDB (projr (main_startup sql_flags ok_externals))"
proof -
  from migration_manager_store [OF startup_etcd] migration_manager_store [OF startup_sql]
    fixture_flags
  show ?thesis by (simp add: startup_etcd startup_sql)
qed

subsection \<open>C4: one active store, chosen before serving\<close>

text \<open>
  Claim C4: exactly one backend engine is active per process. In every start-up that
  completes, \<^verbatim>\<open>activeDB\<close> is either the relational or the key-value store, the encryptor
  and the request handler are both built on it, and \<^verbatim>\<open>sqlDB\<close> is non-nil exactly when it
  is the active one. The choice precedes serving and is never switched: in every state
  the process reaches from there, it either serves from that same store or has exited.
\<close>

theorem single_active_backend:
  assumes "main_startup f x = Inr w"
    and "(proc_step x)\<^sup>*\<^sup>* (started f x) p"
  shows "(activeDB w = SqlDB \<or> activeDB w = EtcdDB) \<and>
         encryptor_db w = activeDB w \<and> handler_db w = activeDB w \<and>
         sqlDB_set w = (activeDB w = SqlDB) \<and>
         (serving_db p = Some (activeDB w) \<or> serving_db p = None)"
proof -
  have st: "started f x = Serving w"
    using assms(1) by (simp add: started_def)
  from proc_step_from_Serving [OF assms(2)] have "p = Serving w \<or> (\<exists>c. p = Exited c)"
    by (auto simp: st)
  then have "serving_db p = Some (handler_db w) \<or> serving_db p = None"
    by auto
  then show ?thesis
    using startup_fields [OF assms(1)] by (cases "activeDB w") auto
qed

text \<open>
  C4, on the two fixtures: one process serves from the relational store, the other from
  the key-value store, and the first can step to its exit, where nothing is served.
\<close>

theorem single_active_backend_witness:
  "serving_db (started sql_flags ok_externals) = Some SqlDB \<and>
   serving_db (started etcd_flags ok_externals) = Some EtcdDB \<and>
   proc_step ok_externals (started sql_flags ok_externals) (Exited 0) \<and>
   serving_db (Exited 0) = None"
proof -
  have s1: "(proc_step ok_externals)\<^sup>*\<^sup>*
              (started sql_flags ok_externals) (started sql_flags ok_externals)"
    by simp
  have s2: "(proc_step ok_externals)\<^sup>*\<^sup>*
              (started etcd_flags ok_externals) (started etcd_flags ok_externals)"
    by simp
  have nw: "\<not> monitor_Wait_err ok_externals"
    by (simp add: ok_externals_def)
  have st: "proc_step ok_externals (started sql_flags ok_externals) (Exited 0)"
    unfolding started_def startup_sql using wait_exited [OF nw] by simp
  from single_active_backend [OF startup_sql s1] single_active_backend [OF startup_etcd s2] st
  show ?thesis by (simp add: started_def startup_sql startup_etcd)
qed

subsection \<open>C10: what selects the store\<close>

text \<open>
  Claim C10: in every start-up that completes, the relational store is the active one
  if and only if both \<^verbatim>\<open>databaseDriver\<close> and \<^verbatim>\<open>databaseConnectionString\<close> are non-empty. The
  defaults are the driver \<^verbatim>\<open>mysql\<close> and the empty connection string; with the default
  driver the connection string alone decides. With an empty connection string the
  selection block cannot fail, whatever the SQL calls would return, and yields the
  key-value store.
\<close>

theorem backend_selection_flags:
  "(main_startup f x = Inr w \<longrightarrow>
      (activeDB w = SqlDB \<longleftrightarrow> databaseDriver f \<noteq> [] \<and> databaseConnectionString f \<noteq> [])) \<and>
   databaseDriver (default_flags ttl retry) = ''mysql'' \<and>
   databaseConnectionString (default_flags ttl retry) = [] \<and>
   (databaseDriver f = ''mysql'' \<and> main_startup f x = Inr w \<longrightarrow>
      (activeDB w = SqlDB \<longleftrightarrow> databaseConnectionString f \<noteq> [])) \<and>
   (databaseConnectionString f = [] \<longrightarrow> select_activeDB f x = Inr (EtcdDB, None))"
proof -
  have a: "activeDB w = SqlDB \<longleftrightarrow> databaseDriver f \<noteq> [] \<and> databaseConnectionString f \<noteq> []"
    if "main_startup f x = Inr w"
    using startup_fields(1) [OF that] by (simp split: if_splits)
  have b: "select_activeDB f x = Inr (EtcdDB, None)" if "databaseConnectionString f = []"
    using that by (simp add: select_activeDB_def)
  show ?thesis
    using a b by (auto simp: default_flags_def)
qed

text \<open>
  C10, on the two fixtures, which differ in the connection string only: the start-up
  without it completes on the key-value store, the one with it on the relational store.
\<close>

theorem backend_selection_flags_witness:
  "databaseDriver etcd_flags = ''mysql'' \<and> databaseConnectionString etcd_flags = [] \<and>
   main_startup etcd_flags ok_externals = Inr (projr (main_startup etcd_flags ok_externals)) \<and>
   activeDB (projr (main_startup etcd_flags ok_externals)) = EtcdDB \<and>
   databaseDriver sql_flags = ''mysql'' \<and> databaseConnectionString sql_flags \<noteq> [] \<and>
   main_startup sql_flags ok_externals = Inr (projr (main_startup sql_flags ok_externals)) \<and>
   activeDB (projr (main_startup sql_flags ok_externals)) = SqlDB \<and>
   select_activeDB etcd_flags ok_externals = Inr (EtcdDB, None)"
proof -
  from backend_selection_flags
         [of etcd_flags ok_externals "projr (main_startup etcd_flags ok_externals)"]
       backend_selection_flags
         [of sql_flags ok_externals "projr (main_startup sql_flags ok_externals)"]
       fixture_flags
  show ?thesis by (simp add: startup_etcd startup_sql)
qed

section \<open>Properties of VolumeMount validation\<close>

text \<open>
  Claim C1: the mount of the test validates; every mount whose driver is empty, whose
  mode is empty, or whose shared device has an empty volume identifier fails validation;
  and so does every mount that carries a non-empty deprecated field (\<^verbatim>\<open>DeprecatedConfig\<close>
  or \<^verbatim>\<open>DeprecatedVolumeId\<close>) that its own sub-validation rejects. This holds whatever the
  two sub-validations check.
\<close>

theorem VolumeMount_Validate:
  "Validate config_ok volume_id_ok good_mount = [] \<and>
   (Driver m = [] \<longrightarrow> Validate config_ok volume_id_ok m \<noteq> []) \<and>
   (Mode m = [] \<longrightarrow> Validate config_ok volume_id_ok m \<noteq> []) \<and>
   ((\<exists>s. GetShared m = Some s \<and> VolumeId s = []) \<longrightarrow>
      Validate config_ok volume_id_ok m \<noteq> []) \<and>
   (DeprecatedConfig m \<noteq> [] \<and> \<not> config_ok (DeprecatedConfig m) \<longrightarrow>
      Validate config_ok volume_id_ok m \<noteq> []) \<and>
   (DeprecatedVolumeId m \<noteq> [] \<and> \<not> volume_id_ok (DeprecatedVolumeId m) \<longrightarrow>
      Validate config_ok volume_id_ok m \<noteq> [])"
proof -
  have good: "Validate config_ok volume_id_ok good_mount = []"
    by (simp add: Validate_def good_mount_def)
  have bad: "Validate config_ok volume_id_ok m \<noteq> []"
    if "Driver m = [] \<or> Mode m = [] \<or> (\<exists>s. GetShared m = Some s \<and> VolumeId s = []) \<or>
        (DeprecatedConfig m \<noteq> [] \<and> \<not> config_ok (DeprecatedConfig m)) \<or>
        (DeprecatedVolumeId m \<noteq> [] \<and> \<not> volume_id_ok (DeprecatedVolumeId m))"
    using that unfolding Validate_def by (auto simp del: GetShared.simps)
  show ?thesis
    using good bad by blast
qed

text \<open>
  C1, on the mounts of the test's contexts, with sub-validations that reject every
  deprecated value: each changes one field of the good mount and fails.
\<close>

theorem VolumeMount_Validate_witness:
  "Validate (\<lambda>_. False) (\<lambda>_. False) good_mount = [] \<and>
   Validate (\<lambda>_. False) (\<lambda>_. False) (good_mount \<lparr> DeprecatedConfig := ''wat'' \<rparr>) \<noteq> [] \<and>
   Validate (\<lambda>_. False) (\<lambda>_. False) (good_mount \<lparr> DeprecatedVolumeId := ''badness'' \<rparr>) \<noteq> [] \<and>
   Validate (\<lambda>_. False) (\<lambda>_. False) (good_mount \<lparr> Driver := [] \<rparr>) \<noteq> [] \<and>
   Validate (\<lambda>_. False) (\<lambda>_. False) (set_shared_VolumeId [] good_mount) \<noteq> [] \<and>
   Validate (\<lambda>_. False) (\<lambda>_. False) (good_mount \<lparr> Mode := [] \<rparr>) \<noteq> []"
proof -
  note v = VolumeMount_Validate [of "\<lambda>_. False" "\<lambda>_. False"]
  have sh: "GetShared (set_shared_VolumeId [] good_mount) =
              Some \<lparr> VolumeId = [], MountConfig = ''{\"foo\":\"bar\"}'' \<rparr>"
    by (simp add: good_mount_def)
  from v [of "good_mount \<lparr> DeprecatedConfig := ''wat'' \<rparr>"]
       v [of "good_mount \<lparr> DeprecatedVolumeId := ''badness'' \<rparr>"]
       v [of "good_mount \<lparr> Driver := [] \<rparr>"]
       v [of "set_shared_VolumeId [] good_mount"]
       v [of "good_mount \<lparr> Mode := [] \<rparr>"] sh
  show ?thesis
    by (simp del: GetShared.simps set_shared_VolumeId.simps)
qed

section \<open>Properties of the migration pipeline\<close>

lemma apply_migrations_all_succeed:
  assumes "\<forall>m \<in> set ms. \<forall>d. Up m d \<noteq> None"
  shows "\<exists>d. apply_migrations ms s applied =
           (Complete,
            \<lparr> SchemaVersion = (if ms = [] then SchemaVersion s else Version (last ms)),
              contents = (if ms = [] then contents s else d) \<rparr>,
            applied @ map Version ms)"
  using assms
proof (induction ms arbitrary: s applied)
  case Nil
  then show ?case by simp
next
  case (Cons m ms)
  from Cons.prems have "Up m (contents s) \<noteq> None" by simp
  then obtain d where d: "Up m (contents s) = Some d" by auto
  from Cons.prems have rest: "\<forall>m \<in> set ms. \<forall>d. Up m d \<noteq> None" by simp
  from Cons.IH [OF rest, of "\<lparr> SchemaVersion = Version m, contents = d \<rparr>" "applied @ [Version m]"]
  show ?case using d by (cases "ms = []") auto
qed

lemma map_insort_key: "map f (insort_key f x xs) = insort (f x) (map f xs)"
  by (induction xs) simp_all

lemma map_sort_key: "map f (sort_key f xs) = sort (map f xs)"
  by (induction xs) (simp_all add: map_insort_key)

lemma versions_selected:
  "map Version (selected_migrations registered s) =
     sort (filter (\<lambda>v. SchemaVersion s < v) (map Version registered))"
  unfolding selected_migrations_def
  by (simp add: map_sort_key filter_map comp_def)

lemma sort_2_3_5:
  fixes vs :: "nat list"
  assumes "mset vs = {#2, 3, 5#}"
  shows "sort vs = [2, 3, 5]"
proof -
  have "sort vs = sorted_list_of_multiset (mset vs)" by simp
  also have "\<dots> = [2, 3, 5]" unfolding assms by simp
  finally show ?thesis .
qed

text \<open>
  Claim C6: with registered migrations that target the versions 2, 3 and 5, in any
  order of registration, none of which fails, and a store whose recorded version is 1,
  the manager completes, applies the three in the order 2, 3, 5 and leaves the recorded
  version at 5; run again on the migrated store, it completes, applies nothing and
  leaves the store as it is.
\<close>

theorem migration_ordering:
  assumes "mset (map Version registered) = {#2, 3, 5#}"
    and "\<forall>m \<in> set registered. \<forall>d. Up m d \<noteq> None"
    and "SchemaVersion s = 1"
  shows "\<exists>s'. run_manager registered s = (Complete, s', [2, 3, 5]) \<and>
               SchemaVersion s' = 5 \<and>
               run_manager registered s' = (Complete, s', [])"
proof -
  let ?sel = "selected_migrations registered s"
  have vset: "set (map Version registered) = {2, 3, 5}"
    using assms(1) by (metis set_mset_mset set_mset_add_mset_insert set_mset_empty)
  have all_gt: "filter (\<lambda>v. SchemaVersion s < v) (map Version registered) = map Version registered"
    using vset assms(3) by (intro filter_True) auto
  have vers: "map Version ?sel = [2, 3, 5]"
    using sort_2_3_5 [OF assms(1)] by (simp add: versions_selected all_gt)
  have ne: "?sel \<noteq> []"
    using vers by auto
  have lastv: "Version (last ?sel) = 5"
    using vers ne by (metis last_map last.simps list.distinct(1))
  have succ: "\<forall>m \<in> set ?sel. \<forall>d. Up m d \<noteq> None"
    using assms(2) by (simp add: selected_migrations_def)
  from apply_migrations_all_succeed [OF succ, of s "[]"] obtain d where
    run: "run_manager registered s = (Complete, \<lparr> SchemaVersion = 5, contents = d \<rparr>, [2, 3, 5])"
    using ne lastv vers by (auto simp: run_manager_def)
  let ?s' = "\<lparr> SchemaVersion = 5, contents = d \<rparr>"
  have vmem: "Version m \<in> {2, 3, 5}" if "m \<in> set registered" for m
    using vset that by (metis image_eqI set_map)
  have none: "filter (\<lambda>m. 5 < Version m) registered = []"
    using vmem by (fastforce simp: filter_empty_conv)
  have again: "run_manager registered ?s' = (Complete, ?s', [])"
    by (simp add: run_manager_def selected_migrations_def none)
  show ?thesis
    using run again by auto
qed

text \<open>
  C6, on three migrations registered in the order 5, 2, 3, each of which appends a line
  to the store: the lines appear in the order of the versions.
\<close>

theorem migration_ordering_witness:
  "run_manager registry_2_3_5 store_v1 =
     (Complete, \<lparr> SchemaVersion = 5, contents = [''split-lrps'', ''base64'', ''reencrypt''] \<rparr>,
      [2, 3, 5]) \<and>
   run_manager registry_2_3_5
       \<lparr> SchemaVersion = 5, contents = [''split-lrps'', ''base64'', ''reencrypt''] \<rparr> =
     (Complete, \<lparr> SchemaVersion = 5, contents = [''split-lrps'', ''base64'', ''reencrypt''] \<rparr>, [])"
proof -
  have h1: "mset (map Version registry_2_3_5) = {#2, 3, 5#}"
    by (simp add: registry_2_3_5_def note_migration_def)
  have h2: "\<forall>m \<in> set registry_2_3_5. \<forall>d. Up m d \<noteq> None"
    by (simp add: registry_2_3_5_def note_migration_def)
  have h3: "SchemaVersion store_v1 = 1"
    by (simp add: store_v1_def)
  from migration_ordering [OF h1 h2 h3] obtain s' where
    s': "run_manager registry_2_3_5 store_v1 = (Complete, s', [2, 3, 5])"
        "run_manager registry_2_3_5 s' = (Complete, s', [])"
    by blast
  have ev: "run_manager registry_2_3_5 store_v1 =
     (Complete, \<lparr> SchemaVersion = 5, contents = [''split-lrps'', ''base64'', ''reencrypt''] \<rparr>,
      [2, 3, 5])"
    by (simp add: run_manager_def selected_migrations_def registry_2_3_5_def note_migration_def
        store_v1_def)
  from s'(1) ev
  have "s' = \<lparr> SchemaVersion = 5, contents = [''split-lrps'', ''base64'', ''reencrypt''] \<rparr>"
    by simp
  with s' show ?thesis by simp
qed

end
